theory Spec2Isabelle
  imports Complex_Main "HOL-Library.Multiset" "HOL-Library.Sublist" "HOL-Library.Word"
begin

section \<open>The object detector of lens-ai: data model\<close>

text \<open>
  The module is a JavaScript class, \<^verbatim>\<open>ObjectDetector\<close>. A JavaScript Number is read here
  as a real number: every threshold test, \<^verbatim>\<open>Math.min\<close>, \<^verbatim>\<open>Math.max\<close>,
  \<^verbatim>\<open>Math.abs\<close> and subtraction below is taken over \<^typ>\<open>real\<close>. The values NaN and
  the infinities are not part of the model; in the pipeline they would need a bounding box
  of height zero or a perimeter of zero, which a contour of area at least 1500 does not have.

  The labels are the values of the table \<^verbatim>\<open>objectTypes\<close>; the strings are pairwise
  distinct, so the keys stand for them.
\<close>

datatype objectType =
    HUMAN | FACE | RECTANGULAR | CIRCULAR | SQUARE
  | VERTICAL | HORIZONTAL | SMALL | LARGE | UNKNOWN

fun type_name :: "objectType \<Rightarrow> string" where
  "type_name HUMAN = ''person''"
| "type_name FACE = ''face''"
| "type_name RECTANGULAR = ''rectangular object''"
| "type_name CIRCULAR = ''circular object''"
| "type_name SQUARE = ''square object''"
| "type_name VERTICAL = ''vertical object''"
| "type_name HORIZONTAL = ''horizontal object''"
| "type_name SMALL = ''small object''"
| "type_name LARGE = ''large object''"
| "type_name UNKNOWN = ''object''"

text \<open>The rectangle returned by \<^verbatim>\<open>cv.boundingRect\<close>.\<close>

record rect =
  rect_x :: real
  rect_y :: real
  rect_width :: real
  rect_height :: real

text \<open>The object literal built in \<^verbatim>\<open>analyzeContours\<close>.\<close>

record detection =
  d_type :: objectType
  d_rect :: rect
  d_area :: real
  d_aspectRatio :: real
  d_circularity :: real
  d_extent :: real
  confidence :: real
  center :: "real \<times> real"

text \<open>The constants set by the constructor and never assigned again.\<close>

definition minContourArea :: real where
  "minContourArea = 1500"

definition humanAspectRatioMin :: real where
  "humanAspectRatioMin = 0.3"

definition humanAspectRatioMax :: real where
  "humanAspectRatioMax = 0.8"

section \<open>Classification\<close>

definition isLikelyHuman :: "rect \<Rightarrow> real \<Rightarrow> real \<Rightarrow> bool" where
  "isLikelyHuman rect aspectRatio area =
     (if aspectRatio < humanAspectRatioMin \<or> aspectRatio > humanAspectRatioMax then False
      else if area < 10000 \<or> area > 200000 then False
      else if rect_height rect < 100 then False
      else True)"

definition classifyObject :: "rect \<Rightarrow> real \<Rightarrow> real \<Rightarrow> real \<Rightarrow> real \<Rightarrow> objectType" where
  "classifyObject rect aspectRatio extent circularity area =
     (if isLikelyHuman rect aspectRatio area then HUMAN
      else if circularity > 0.7 then CIRCULAR
      else if aspectRatio \<ge> 0.8 \<and> aspectRatio \<le> 1.2 then SQUARE
      else if aspectRatio > 1.5 \<or> aspectRatio < 0.67 then
        (if aspectRatio > 1.5 then HORIZONTAL else VERTICAL)
      else if area > 50000 then LARGE
      else if area < 5000 then SMALL
      else RECTANGULAR)"

text \<open>
  The rule chain as the specification words it: an ordered table of predicates over the
  descriptors (bounding box, aspect ratio, circularity, area) with their labels, read top
  to bottom, the first match returning, and a fallback label.
\<close>

type_synonym descriptors = "rect \<times> real \<times> real \<times> real"

definition spec_person :: "descriptors \<Rightarrow> bool" where
  "spec_person = (\<lambda>(rect, aspectRatio, circularity, area).
     (0.3 \<le> aspectRatio \<and> aspectRatio \<le> 0.8) \<and> (10000 \<le> area \<and> area \<le> 200000)
       \<and> rect_height rect \<ge> 100)"

definition spec_rules :: "((descriptors \<Rightarrow> bool) \<times> objectType) list" where
  "spec_rules =
     [(spec_person, HUMAN),
      (\<lambda>(rect, aspectRatio, circularity, area). circularity > 0.7, CIRCULAR),
      (\<lambda>(rect, aspectRatio, circularity, area). 0.8 \<le> aspectRatio \<and> aspectRatio \<le> 1.2, SQUARE),
      (\<lambda>(rect, aspectRatio, circularity, area). aspectRatio > 1.5, HORIZONTAL),
      (\<lambda>(rect, aspectRatio, circularity, area). aspectRatio < 0.67, VERTICAL),
      (\<lambda>(rect, aspectRatio, circularity, area). area > 50000, LARGE),
      (\<lambda>(rect, aspectRatio, circularity, area). area < 5000, SMALL)]"

fun first_match :: "(('a \<Rightarrow> bool) \<times> 'b) list \<Rightarrow> 'b \<Rightarrow> 'a \<Rightarrow> 'b" where
  "first_match [] fallback v = fallback"
| "first_match ((p, l) # rules) fallback v = (if p v then l else first_match rules fallback v)"

section \<open>Confidence\<close>

definition calculateConfidence :: "objectType \<Rightarrow> real \<Rightarrow> real \<Rightarrow> real \<Rightarrow> real" where
  "calculateConfidence objectType aspectRatio circularity extent =
     (let confidence =
        (case objectType of
           HUMAN \<Rightarrow> (if aspectRatio \<ge> 0.4 \<and> aspectRatio \<le> 0.6 then 0.8 else 0.6)
         | CIRCULAR \<Rightarrow> min 0.9 circularity
         | SQUARE \<Rightarrow> 1.0 - \<bar>aspectRatio - 1.0\<bar>
         | _ \<Rightarrow> min 0.7 extent)
      in max 0.1 (min 0.9 confidence))"

text \<open>The raw score and the clamp as the specification words them.\<close>

definition spec_raw_score :: "objectType \<Rightarrow> real \<Rightarrow> real \<Rightarrow> real \<Rightarrow> real" where
  "spec_raw_score l aspectRatio circularity extent =
     (if l = HUMAN then (if aspectRatio \<in> {0.4 .. 0.6} then 0.8 else 0.6)
      else if l = CIRCULAR then min 0.9 circularity
      else if l = SQUARE then 1.0 - \<bar>aspectRatio - 1.0\<bar>
      else min 0.7 extent)"

definition spec_clamp :: "real \<Rightarrow> real" where
  "spec_clamp v = (if v < 0.1 then 0.1 else if v > 0.9 then 0.9 else v)"

section \<open>Overlap suppression, ranking and truncation\<close>

definition calculateOverlap :: "rect \<Rightarrow> rect \<Rightarrow> real" where
  "calculateOverlap rect1 rect2 =
     (let x1 = max (rect_x rect1) (rect_x rect2);
          y1 = max (rect_y rect1) (rect_y rect2);
          x2 = min (rect_x rect1 + rect_width rect1) (rect_x rect2 + rect_width rect2);
          y2 = min (rect_y rect1 + rect_height rect1) (rect_y rect2 + rect_height rect2)
      in if x2 \<le> x1 \<or> y2 \<le> y1 then 0
         else
           (let intersection = (x2 - x1) * (y2 - y1);
                area1 = rect_width rect1 * rect_height rect1;
                area2 = rect_width rect2 * rect_height rect2;
                union = area1 + area2 - intersection
            in intersection / union))"

definition overlapThreshold :: real where
  "overlapThreshold = 0.5"

text \<open>
  The inner loop of \<^verbatim>\<open>removeOverlappingDetections\<close>: the value of \<^verbatim>\<open>keep\<close> after
  the candidate has been compared with the accepted detections, left to right, stopping
  at the first overlap above the threshold.
\<close>

fun keep_loop :: "detection \<Rightarrow> detection list \<Rightarrow> bool" where
  "keep_loop d [] = True"
| "keep_loop d (f # filtered) =
     (if calculateOverlap (d_rect d) (d_rect f) > overlapThreshold then False
      else keep_loop d filtered)"

text \<open>The outer loop, with the array \<^verbatim>\<open>filtered\<close> as accumulator.\<close>

fun remove_loop :: "detection list \<Rightarrow> detection list \<Rightarrow> detection list" where
  "remove_loop [] filtered = filtered"
| "remove_loop (d # detections) filtered =
     remove_loop detections (if keep_loop d filtered then filtered @ [d] else filtered)"

definition removeOverlappingDetections :: "detection list \<Rightarrow> detection list" where
  "removeOverlappingDetections detections = remove_loop detections []"

text \<open>
  \<^verbatim>\<open>Array.prototype.sort\<close> with a comparator is a builtin of the engine; ECMAScript
  requires it to be stable. It is modelled by a stable insertion sort: an element goes in
  front of the first element of the sorted rest that the comparator does not put before it.
\<close>

fun js_insert :: "('a \<Rightarrow> 'a \<Rightarrow> real) \<Rightarrow> 'a \<Rightarrow> 'a list \<Rightarrow> 'a list" where
  "js_insert cmp a [] = [a]"
| "js_insert cmp a (b # bs) = (if cmp a b \<le> 0 then a # b # bs else b # js_insert cmp a bs)"

fun js_sort :: "('a \<Rightarrow> 'a \<Rightarrow> real) \<Rightarrow> 'a list \<Rightarrow> 'a list" where
  "js_sort cmp [] = []"
| "js_sort cmp (a # as) = js_insert cmp a (js_sort cmp as)"

definition by_confidence :: "detection \<Rightarrow> detection \<Rightarrow> real" where
  "by_confidence a b = confidence b - confidence a"

text \<open>\<^verbatim>\<open>postProcessDetections\<close> on the array it reads and writes.\<close>

definition post_process :: "detection list \<Rightarrow> detection list" where
  "post_process detectedObjects =
     (let deduped = removeOverlappingDetections detectedObjects;
          ranked = js_sort by_confidence deduped
      in if length ranked > 10 then take 10 ranked else ranked)"

text \<open>
  The formula of the specification: the area of the intersection of two boxes, and the
  ratio of it to the area of their union, 0 when the boxes do not overlap.
\<close>

definition spec_intersection :: "rect \<Rightarrow> rect \<Rightarrow> real" where
  "spec_intersection r1 r2 =
     max 0 (min (rect_x r1 + rect_width r1) (rect_x r2 + rect_width r2)
              - max (rect_x r1) (rect_x r2))
     * max 0 (min (rect_y r1 + rect_height r1) (rect_y r2 + rect_height r2)
              - max (rect_y r1) (rect_y r2))"

definition spec_iou :: "rect \<Rightarrow> rect \<Rightarrow> real" where
  "spec_iou r1 r2 =
     (if spec_intersection r1 r2 = 0 then 0
      else spec_intersection r1 r2
             / (rect_width r1 * rect_height r1 + rect_width r2 * rect_height r2
                  - spec_intersection r1 r2))"

definition descending :: "detection list \<Rightarrow> bool" where
  "descending ds = sorted_wrt (\<lambda>a b. confidence a \<ge> confidence b) ds"

section \<open>Exceptions, buffers and the detector object\<close>

text \<open>
  A thrown value. \<^verbatim>\<open>External\<close> stands for whatever an OpenCV or canvas call throws;
  the others are the errors of the builtins modelled below.
\<close>

datatype exn = TypeError | RangeError | IndexSizeError | BindingError | External nat

type_synonym byte = "8 word"

text \<open>
  A \<^verbatim>\<open>cv.Mat\<close> or \<^verbatim>\<open>cv.MatVector\<close> is a handle of the OpenCV.js binding (embind):
  live, with the bytes of its \<^verbatim>\<open>data\<close> view, or deleted. A field of the detector holds
  null (\<open>None\<close>) or a handle.
\<close>

datatype mat = Live "byte list" | Deleted

record detector =
  isInitialized :: bool
  detectedObjects :: "detection list"
  src :: "mat option"
  dst :: "mat option"
  gray :: "mat option"
  contours :: "mat option"
  hierarchy :: "mat option"

definition new_ObjectDetector :: detector where
  "new_ObjectDetector =
     \<lparr>isInitialized = False, detectedObjects = [], src = None, dst = None, gray = None,
      contours = None, hierarchy = None\<rparr>"

text \<open>
  The five constructor calls of \<^verbatim>\<open>initialize\<close> are calls into OpenCV: each returns or
  throws, and a fresh matrix holds whatever the heap holds (\<open>bytes_of f n\<close> is the array
  of the \<open>n\<close> bytes \<open>f 0\<close>, \<open>f 1\<close>, ...). \<^verbatim>\<open>CV_8UC4\<close> is four bytes per pixel,
  \<^verbatim>\<open>CV_8UC1\<close> one.
\<close>

definition bytes_of :: "(nat \<Rightarrow> byte) \<Rightarrow> nat \<Rightarrow> byte list" where
  "bytes_of f n = map f [0 ..< n]"

record cv_new =
  new_src :: "exn option"
  new_dst :: "exn option"
  new_gray :: "exn option"
  new_contours :: "exn option"
  new_hierarchy :: "exn option"
  heap :: "nat \<Rightarrow> byte"

definition initialize :: "cv_new \<Rightarrow> nat \<Rightarrow> nat \<Rightarrow> detector \<Rightarrow> bool \<times> detector" where
  "initialize cv videoWidth videoHeight s =
     (case new_src cv of Some e \<Rightarrow> (False, s) | None \<Rightarrow>
     (let s1 = s\<lparr>src := Some (Live (bytes_of (heap cv) (videoHeight * videoWidth * 4)))\<rparr> in
      case new_dst cv of Some e \<Rightarrow> (False, s1) | None \<Rightarrow>
     (let s2 = s1\<lparr>dst := Some (Live (bytes_of (heap cv) (videoHeight * videoWidth)))\<rparr> in
      case new_gray cv of Some e \<Rightarrow> (False, s2) | None \<Rightarrow>
     (let s3 = s2\<lparr>gray := Some (Live [])\<rparr> in
      case new_contours cv of Some e \<Rightarrow> (False, s3) | None \<Rightarrow>
     (let s4 = s3\<lparr>contours := Some (Live [])\<rparr> in
      case new_hierarchy cv of Some e \<Rightarrow> (False, s4) | None \<Rightarrow>
     (let s5 = s4\<lparr>hierarchy := Some (Live [])\<rparr> in
      (True, s5\<lparr>isInitialized := True\<rparr>)))))))"

section \<open>The contour loop\<close>

text \<open>
  What the three geometry primitives return for one contour: \<^verbatim>\<open>cv.contourArea\<close>,
  \<^verbatim>\<open>cv.boundingRect\<close> and \<^verbatim>\<open>cv.arcLength\<close>.
\<close>

record contour =
  c_area :: real
  c_rect :: rect
  c_perimeter :: real

text \<open>
  The descriptors and the object literal of one contour that passed the area filter. The
  quotients are those of the reals; for a bounding box of height zero or a perimeter of
  zero JavaScript would give an infinity or NaN instead.
\<close>

definition detection_of :: "contour \<Rightarrow> detection" where
  "detection_of c =
     (let area = c_area c;
          rect = c_rect c;
          aspectRatio = rect_width rect / rect_height rect;
          extent = area / (rect_width rect * rect_height rect);
          perimeter = c_perimeter c;
          circularity = 4 * pi * area / (perimeter * perimeter);
          objectType = classifyObject rect aspectRatio extent circularity area
      in \<lparr>d_type = objectType, d_rect = rect, d_area = area, d_aspectRatio = aspectRatio,
          d_circularity = circularity, d_extent = extent,
          confidence = calculateConfidence objectType aspectRatio circularity extent,
          center = (rect_x rect + rect_width rect / 2, rect_y rect + rect_height rect / 2)\<rparr>)"

text \<open>
  The loop of \<^verbatim>\<open>analyzeContours\<close>. An element of the list is one contour of the
  \<^verbatim>\<open>MatVector\<close>: either its measurements, or the exception that \<^verbatim>\<open>get\<close> or a
  primitive throws on it, which leaves the loop with the detections pushed so far.
\<close>

fun analyze_loop :: "(exn + contour) list \<Rightarrow> detector \<Rightarrow> exn option \<times> detector" where
  "analyze_loop [] s = (None, s)"
| "analyze_loop (Inl e # cs) s = (Some e, s)"
| "analyze_loop (Inr c # cs) s =
     (if c_area c < minContourArea then analyze_loop cs s
      else analyze_loop cs (s\<lparr>detectedObjects := detectedObjects s @ [detection_of c]\<rparr>))"

definition postProcessDetections :: "detector \<Rightarrow> detector" where
  "postProcessDetections s = s\<lparr>detectedObjects := post_process (detectedObjects s)\<rparr>"

definition analyzeContours :: "(exn + contour) list \<Rightarrow> detector \<Rightarrow> exn option \<times> detector" where
  "analyzeContours cs s =
     (case analyze_loop cs s of
        (Some e, s') \<Rightarrow> (Some e, s')
      | (None, s') \<Rightarrow> (None, postProcessDetections s'))"

section \<open>One frame\<close>

text \<open>
  The canvas at the call: its size and the RGBA bytes that \<^verbatim>\<open>drawImage\<close> leaves on it.
  \<^verbatim>\<open>getImageData\<close> throws IndexSizeError for a width or height of zero (HTML standard).
\<close>

record canvas_frame =
  canvas_width :: nat
  canvas_height :: nat
  pixel :: "nat \<Rightarrow> byte"

definition getImageData :: "canvas_frame \<Rightarrow> exn + byte list" where
  "getImageData c =
     (if canvas_width c = 0 \<or> canvas_height c = 0 then Inl IndexSizeError
      else Inr (bytes_of (pixel c) (4 * canvas_width c * canvas_height c)))"

text \<open>
  \<^verbatim>\<open>target.set(source)\<close> of a typed array: RangeError when the source is longer than the
  target, otherwise the source is copied over the front of the target (ECMAScript).
\<close>

definition typed_set :: "byte list \<Rightarrow> byte list \<Rightarrow> exn + byte list" where
  "typed_set target source =
     (if length source > length target then Inl RangeError
      else Inr (source @ drop (length source) target))"

text \<open>
  The collaborators of one call of \<^verbatim>\<open>processFrame\<close>: the canvas, the outcome of the two
  \<^verbatim>\<open>drawImage\<close> calls, the OpenCV stages from the bytes of \<^verbatim>\<open>src\<close> to the contours
  (\<^verbatim>\<open>cvtColor\<close>, \<^verbatim>\<open>preprocessImage\<close>, \<^verbatim>\<open>findContours\<close>; the matrices gray, dst,
  contours and hierarchy are written and read by these calls only), and the canvas calls
  of \<^verbatim>\<open>drawDetections\<close>.
\<close>

record frame_env =
  canvas :: canvas_frame
  drawImage1 :: "exn option"
  find_contours :: "byte list \<Rightarrow> exn + (exn + contour) list"
  drawImage2 :: "exn option"
  drawDetections :: "detection list \<Rightarrow> exn option"

text \<open>
  \<^verbatim>\<open>this.src.data\<close>: a TypeError on null, a BindingError on a deleted handle. Then the
  body of the \<^verbatim>\<open>try\<close> block: the value returned or the exception thrown.
\<close>

definition src_data :: "detector \<Rightarrow> exn + byte list" where
  "src_data s =
     (case src s of
        None \<Rightarrow> Inl TypeError
      | Some Deleted \<Rightarrow> Inl BindingError
      | Some (Live d) \<Rightarrow> Inr d)"

definition frame_body :: "frame_env \<Rightarrow> detector \<Rightarrow> (exn + detection list) \<times> detector" where
  "frame_body env s0 =
     (let s = s0\<lparr>detectedObjects := []\<rparr> in
      case drawImage1 env of Some e \<Rightarrow> (Inl e, s) | None \<Rightarrow>
     (case getImageData (canvas env) of Inl e \<Rightarrow> (Inl e, s) | Inr imageData \<Rightarrow>
     (case src_data s of Inl e \<Rightarrow> (Inl e, s) | Inr buffer \<Rightarrow>
     (case typed_set buffer imageData of Inl e \<Rightarrow> (Inl e, s) | Inr buffer' \<Rightarrow>
     (let s1 = s\<lparr>src := Some (Live buffer')\<rparr> in
      case find_contours env buffer' of Inl e \<Rightarrow> (Inl e, s1) | Inr cs \<Rightarrow>
     (case drawImage2 env of Some e \<Rightarrow> (Inl e, s1) | None \<Rightarrow>
     (case analyzeContours cs s1 of (Some e, s2) \<Rightarrow> (Inl e, s2) | (None, s2) \<Rightarrow>
     (case drawDetections env (detectedObjects s2) of Some e \<Rightarrow> (Inl e, s2) | None \<Rightarrow>
      (Inr (detectedObjects s2), s2)))))))))"

text \<open>
  \<^verbatim>\<open>processFrame\<close>: the guard, then the body under \<^verbatim>\<open>try\<close>; the \<^verbatim>\<open>catch\<close> logs
  and returns the empty array. \<open>Inl\<close> would be an exception that reaches the caller.
\<close>

definition processFrame :: "frame_env \<Rightarrow> detector \<Rightarrow> (exn + detection list) \<times> detector" where
  "processFrame env s =
     (if \<not> isInitialized s then (Inr [], s)
      else case frame_body env s of
             (Inl e, s') \<Rightarrow> (Inr [], s')
           | (Inr ds, s') \<Rightarrow> (Inr ds, s'))"

section \<open>Cleanup\<close>

text \<open>
  \<^verbatim>\<open>if (this.m) this.m.delete()\<close>: null is skipped, every handle is truthy. The binding
  throws BindingError when \<^verbatim>\<open>delete\<close> is called on a handle already deleted. The field
  keeps the handle.
\<close>

definition release :: "mat option \<Rightarrow> exn + mat option" where
  "release m =
     (case m of
        None \<Rightarrow> Inr None
      | Some (Live d) \<Rightarrow> Inr (Some Deleted)
      | Some Deleted \<Rightarrow> Inl BindingError)"

definition cleanup :: "detector \<Rightarrow> exn option \<times> detector" where
  "cleanup s =
     (case release (src s) of Inl e \<Rightarrow> (Some e, s) | Inr m1 \<Rightarrow>
     (let s1 = s\<lparr>src := m1\<rparr> in
      case release (dst s1) of Inl e \<Rightarrow> (Some e, s1) | Inr m2 \<Rightarrow>
     (let s2 = s1\<lparr>dst := m2\<rparr> in
      case release (gray s2) of Inl e \<Rightarrow> (Some e, s2) | Inr m3 \<Rightarrow>
     (let s3 = s2\<lparr>gray := m3\<rparr> in
      case release (contours s3) of Inl e \<Rightarrow> (Some e, s3) | Inr m4 \<Rightarrow>
     (let s4 = s3\<lparr>contours := m4\<rparr> in
      case release (hierarchy s4) of Inl e \<Rightarrow> (Some e, s4) | Inr m5 \<Rightarrow>
     (let s5 = s4\<lparr>hierarchy := m5\<rparr> in
      (None, s5\<lparr>isInitialized := False\<rparr>)))))))"

section \<open>Specification functions and concrete inputs\<close>

text \<open>
  What the contour loop is to append when no primitive throws: one detection for each
  contour whose area is not below the minimum, in the order of the contours.
\<close>

definition candidates :: "contour list \<Rightarrow> detection list" where
  "candidates cs = map detection_of (filter (\<lambda>c. c_area c \<ge> 1500) cs)"

text \<open>Bounding boxes and detections for the concrete cases of overlap suppression.\<close>

definition box :: "real \<Rightarrow> real \<Rightarrow> real \<Rightarrow> real \<Rightarrow> rect" where
  "box x y w h = \<lparr>rect_x = x, rect_y = y, rect_width = w, rect_height = h\<rparr>"

definition boxed :: "rect \<Rightarrow> real \<Rightarrow> detection" where
  "boxed r c =
     \<lparr>d_type = RECTANGULAR, d_rect = r, d_area = rect_width r * rect_height r,
      d_aspectRatio = rect_width r / rect_height r, d_circularity = 0.5, d_extent = 1,
      confidence = c,
      center = (rect_x r + rect_width r / 2, rect_y r + rect_height r / 2)\<rparr>"

text \<open>
  Constructor calls that all return, and a run of them where the second throws; a detector
  after a successful \<^verbatim>\<open>initialize(640, 480)\<close>; a contour of a standing person; and
  frames on which every collaborator returns (of the working size, of 320 by 240, of
  width zero, of 1280 by 960), and one on which a contour primitive throws after a
  detection has been pushed.
\<close>

definition cv_ok :: cv_new where
  "cv_ok = \<lparr>new_src = None, new_dst = None, new_gray = None, new_contours = None,
            new_hierarchy = None, heap = (\<lambda>i. 0)\<rparr>"

definition working :: detector where
  "working = snd (initialize cv_ok 640 480 new_ObjectDetector)"

definition standing :: contour where
  "standing = \<lparr>c_area = 15000, c_rect = box 10 10 100 250, c_perimeter = 700\<rparr>"

definition cv_failing :: cv_new where
  "cv_failing = cv_ok\<lparr>new_dst := Some (External 1)\<rparr>"

definition full_frame :: frame_env where
  "full_frame =
     \<lparr>canvas = \<lparr>canvas_width = 640, canvas_height = 480, pixel = (\<lambda>i. 0)\<rparr>,
      drawImage1 = None, find_contours = (\<lambda>buffer. Inr [Inr standing]),
      drawImage2 = None, drawDetections = (\<lambda>ds. None)\<rparr>"

definition small_frame :: frame_env where
  "small_frame =
     \<lparr>canvas = \<lparr>canvas_width = 320, canvas_height = 240, pixel = (\<lambda>i. 0)\<rparr>,
      drawImage1 = None, find_contours = (\<lambda>buffer. Inr [Inr standing]),
      drawImage2 = None, drawDetections = (\<lambda>ds. None)\<rparr>"

definition empty_frame :: frame_env where
  "empty_frame = full_frame\<lparr>canvas := \<lparr>canvas_width = 0, canvas_height = 480, pixel = (\<lambda>i. 0)\<rparr>\<rparr>"

definition large_frame :: frame_env where
  "large_frame = full_frame\<lparr>canvas := \<lparr>canvas_width = 1280, canvas_height = 960, pixel = (\<lambda>i. 0)\<rparr>\<rparr>"

definition broken_frame :: frame_env where
  "broken_frame =
     \<lparr>canvas = \<lparr>canvas_width = 640, canvas_height = 480, pixel = (\<lambda>i. 0)\<rparr>,
      drawImage1 = None, find_contours = (\<lambda>buffer. Inr [Inr standing, Inl (External 0)]),
      drawImage2 = None, drawDetections = (\<lambda>ds. None)\<rparr>"

section \<open>Classification: the rule chain\<close>

lemma isLikelyHuman_iff:
  "isLikelyHuman rect aspectRatio area = spec_person (rect, aspectRatio, circularity, area)"
  by (auto simp: isLikelyHuman_def spec_person_def humanAspectRatioMin_def humanAspectRatioMax_def)

text \<open>
  C1. \<^verbatim>\<open>classifyObject\<close> is the ordered rule table of the specification, first match
  winning, with rectangular as the fallback; a shape that satisfies the person predicate
  and has circularity above 0.7 is a person. The label of the detection built for a
  contour is the label of this table at the descriptors of the contour.
\<close>

theorem classifyObject_rule_chain:
  "classifyObject rect aspectRatio extent circularity area
     = first_match spec_rules RECTANGULAR (rect, aspectRatio, circularity, area)
   \<and> (spec_person (rect, aspectRatio, circularity, area) \<and> circularity > 0.7
        \<longrightarrow> classifyObject rect aspectRatio extent circularity area = HUMAN)
   \<and> d_type (detection_of c)
       = first_match spec_rules RECTANGULAR
           (c_rect c, rect_width (c_rect c) / rect_height (c_rect c),
            4 * pi * c_area c / (c_perimeter c * c_perimeter c), c_area c)"
proof -
  have chain: "classifyObject r a e ci ar = first_match spec_rules RECTANGULAR (r, a, ci, ar)"
    for r a e ci ar
    by (auto simp: classifyObject_def spec_rules_def isLikelyHuman_iff [of r a ar ci])
  have person: "spec_person (rect, aspectRatio, circularity, area)
        \<longrightarrow> classifyObject rect aspectRatio extent circularity area = HUMAN"
    by (simp add: classifyObject_def isLikelyHuman_iff [of rect aspectRatio area circularity])
  have "d_type (detection_of c)
      = classifyObject (c_rect c) (rect_width (c_rect c) / rect_height (c_rect c))
          (c_area c / (rect_width (c_rect c) * rect_height (c_rect c)))
          (4 * pi * c_area c / (c_perimeter c * c_perimeter c)) (c_area c)"
    by (simp add: detection_of_def Let_def)
  with chain person show ?thesis by simp
qed

theorem classifyObject_rule_chain_witness:
  "spec_person (\<lparr>rect_x = 0, rect_y = 0, rect_width = 100, rect_height = 250\<rparr>, 0.4, 0.85, 15000)
   \<and> (0.85::real) > 0.7
   \<and> classifyObject \<lparr>rect_x = 0, rect_y = 0, rect_width = 100, rect_height = 250\<rparr>
        0.4 0.6 0.85 15000 = HUMAN"
proof -
  let ?r = "\<lparr>rect_x = 0, rect_y = 0, rect_width = 100, rect_height = 250\<rparr>"
  have h: "spec_person (?r, 0.4, 0.85, 15000) \<and> (0.85::real) > 0.7"
    by (simp add: spec_person_def)
  have "spec_person (?r, 0.4, 0.85, 15000) \<and> (0.85::real) > 0.7
          \<longrightarrow> classifyObject ?r 0.4 0.6 0.85 15000 = HUMAN"
    using classifyObject_rule_chain [of ?r "0.4" "0.6" "0.85" 15000 standing] by blast
  with h show ?thesis by blast
qed

section \<open>Confidence: the raw score and the clamp\<close>

lemma clamp_bounds: "0.1 \<le> max 0.1 (min 0.9 v) \<and> max 0.1 (min 0.9 v) \<le> (0.9::real)"
  by simp

lemma calculateConfidence_bounds:
  "0.1 \<le> calculateConfidence l a c e \<and> calculateConfidence l a c e \<le> 0.9"
  unfolding calculateConfidence_def Let_def by (rule clamp_bounds)

text \<open>
  C6. For every label, \<^verbatim>\<open>calculateConfidence\<close> is the raw score of the specification
  (0.8 or 0.6 for a person, min(0.9, circularity) for circular, 1 - |aspectRatio - 1| for
  square, min(0.7, extent) for every other label), clamped to [0.1, 0.9].
\<close>

theorem calculateConfidence_raw_then_clamp:
  "calculateConfidence l aspectRatio circularity extent
     = spec_clamp (spec_raw_score l aspectRatio circularity extent)"
  by (cases l) (auto simp: calculateConfidence_def spec_clamp_def spec_raw_score_def)

section \<open>Overlap suppression\<close>

lemma calculateOverlap_spec_iou: "calculateOverlap r1 r2 = spec_iou r1 r2"
  by (auto simp: calculateOverlap_def spec_iou_def spec_intersection_def Let_def max_def min_def)

lemma keep_loop_iff:
  "keep_loop d fs \<longleftrightarrow> \<not> (\<exists>f\<in>set fs. calculateOverlap (d_rect d) (d_rect f) > overlapThreshold)"
  by (induction fs) auto

lemma remove_loop_append:
  "remove_loop (xs @ ys) acc = remove_loop ys (remove_loop xs acc)"
  by (induction xs arbitrary: acc) auto

lemma remove_loop_extends:
  "\<exists>ys. remove_loop ds acc = acc @ ys \<and> subseq ys ds"
proof (induction ds arbitrary: acc)
  case Nil
  then show ?case by simp
next
  case (Cons d ds)
  show ?case
  proof (cases "keep_loop d acc")
    case True
    from Cons.IH [of "acc @ [d]"] obtain ys
      where "remove_loop ds (acc @ [d]) = (acc @ [d]) @ ys" "subseq ys ds" by blast
    with True show ?thesis by (intro exI [of _ "d # ys"]) simp
  next
    case False
    from Cons.IH [of acc] obtain ys
      where "remove_loop ds acc = acc @ ys" "subseq ys ds" by blast
    with False show ?thesis by (intro exI [of _ ys]) (simp add: list_emb_Cons)
  qed
qed

lemma removeOverlapping_snoc:
  "removeOverlappingDetections (ds @ [d]) =
     (if \<exists>f\<in>set (removeOverlappingDetections ds). spec_iou (d_rect d) (d_rect f) > 0.5
      then removeOverlappingDetections ds
      else removeOverlappingDetections ds @ [d])"
  by (simp add: removeOverlappingDetections_def remove_loop_append keep_loop_iff
        calculateOverlap_spec_iou overlapThreshold_def)

lemma removeOverlapping_subseq: "subseq (removeOverlappingDetections ds) ds"
  using remove_loop_extends [of ds "[]"] by (auto simp: removeOverlappingDetections_def)

lemma removeOverlapping_first:
  "\<exists>ys. removeOverlappingDetections (d # ds) = d # ys"
  using remove_loop_extends [of ds "[d]"] by (auto simp: removeOverlappingDetections_def)

lemma removeOverlapping_pair:
  "removeOverlappingDetections [d1, d2] =
     (if spec_iou (d_rect d2) (d_rect d1) > 0.5 then [d1] else [d1, d2])"
  by (simp add: removeOverlappingDetections_def calculateOverlap_spec_iou overlapThreshold_def)

text \<open>
  C4. Deduplication visits the detections in discovery order; a candidate is discarded
  exactly when its IoU with some detection already accepted is strictly above 0.5, where
  the IoU is the intersection area over area1 + area2 - intersection area, and 0 for boxes
  that do not overlap. Accepted detections are never replaced: the result is a
  subsequence of the input that starts with the first detection. Two detections with an
  IoU of exactly 0.5 both survive; at 0.51 the later one is suppressed.
\<close>

theorem removeOverlappingDetections_first_wins:
  "calculateOverlap r1 r2 = spec_iou r1 r2
   \<and> removeOverlappingDetections [] = []
   \<and> removeOverlappingDetections (ds @ [d]) =
       (if \<exists>f\<in>set (removeOverlappingDetections ds). spec_iou (d_rect d) (d_rect f) > 0.5
        then removeOverlappingDetections ds
        else removeOverlappingDetections ds @ [d])
   \<and> subseq (removeOverlappingDetections ds) ds
   \<and> hd (removeOverlappingDetections (d # ds)) = d
   \<and> (spec_iou (d_rect d2) (d_rect d1) = 0.5
        \<longrightarrow> removeOverlappingDetections [d1, d2] = [d1, d2])
   \<and> (spec_iou (d_rect d2) (d_rect d1) = 0.51
        \<longrightarrow> removeOverlappingDetections [d1, d2] = [d1])"
proof -
  have "hd (removeOverlappingDetections (d # ds)) = d"
    using removeOverlapping_first [of d ds] by auto
  moreover have "removeOverlappingDetections [] = []"
    by (simp add: removeOverlappingDetections_def)
  ultimately show ?thesis
    by (simp add: calculateOverlap_spec_iou removeOverlapping_snoc removeOverlapping_subseq
          removeOverlapping_pair)
qed

theorem removeOverlappingDetections_first_wins_witness:
  "spec_iou (d_rect (boxed (box 1 0 3 1) 0.9)) (d_rect (boxed (box 0 0 3 1) 0.2)) = 0.5
   \<and> removeOverlappingDetections [boxed (box 0 0 3 1) 0.2, boxed (box 1 0 3 1) 0.9]
       = [boxed (box 0 0 3 1) 0.2, boxed (box 1 0 3 1) 0.9]
   \<and> spec_iou (d_rect (boxed (box 0 0 51 1) 0.9)) (d_rect (boxed (box 0 0 100 1) 0.2)) = 0.51
   \<and> removeOverlappingDetections [boxed (box 0 0 100 1) 0.2, boxed (box 0 0 51 1) 0.9]
       = [boxed (box 0 0 100 1) 0.2]"
proof -
  let ?a = "boxed (box 0 0 3 1) 0.2" and ?b = "boxed (box 1 0 3 1) 0.9"
  let ?c = "boxed (box 0 0 100 1) 0.2" and ?d = "boxed (box 0 0 51 1) 0.9"
  have h1: "spec_iou (d_rect ?b) (d_rect ?a) = 0.5"
    by (simp add: spec_iou_def spec_intersection_def box_def boxed_def)
  have h2: "spec_iou (d_rect ?d) (d_rect ?c) = 0.51"
    by (simp add: spec_iou_def spec_intersection_def box_def boxed_def)
  from removeOverlappingDetections_first_wins [of _ _ "[]" ?a ?b ?a] h1
  have "removeOverlappingDetections [?a, ?b] = [?a, ?b]" by blast
  moreover from removeOverlappingDetections_first_wins [of _ _ "[]" ?c ?d ?c] h2
  have "removeOverlappingDetections [?c, ?d] = [?c]" by blast
  ultimately show ?thesis using h1 h2 by blast
qed

section \<open>Ranking and truncation\<close>

lemma mset_js_insert: "mset (js_insert cmp a bs) = add_mset a (mset bs)"
  by (induction bs) auto

lemma mset_js_sort: "mset (js_sort cmp as) = mset as"
  by (induction as) (auto simp: mset_js_insert)

lemma set_js_insert: "set (js_insert cmp a bs) = insert a (set bs)"
  by (induction bs) auto

lemma length_js_sort: "length (js_sort cmp as) = length as"
  using mset_js_sort [of cmp as] by (metis size_mset)

lemma set_js_sort: "set (js_sort cmp as) = set as"
  using mset_js_sort [of cmp as] by (metis set_mset_mset)

lemma descending_js_insert:
  "descending bs \<Longrightarrow> descending (js_insert by_confidence a bs)"
  by (induction bs) (auto simp: descending_def by_confidence_def set_js_insert)

lemma descending_js_sort: "descending (js_sort by_confidence as)"
proof (induction as)
  case Nil
  show ?case by (simp add: descending_def)
next
  case (Cons a as)
  then show ?case by (simp add: descending_js_insert)
qed

lemma descending_take: "descending ds \<Longrightarrow> descending (take n ds)"
  unfolding descending_def by (rule sorted_wrt_take)

lemma post_process_take:
  "post_process ds = take 10 (js_sort by_confidence (removeOverlappingDetections ds))"
  by (simp add: post_process_def Let_def)

lemma length_post_process: "length (post_process ds) \<le> 10"
  by (simp add: post_process_take)

lemma descending_post_process: "descending (post_process ds)"
  by (simp add: post_process_take descending_take descending_js_sort)

lemma set_removeOverlapping: "set (removeOverlappingDetections ds) \<subseteq> set ds"
  using removeOverlapping_subseq [of ds] by (auto dest: list_emb_set)

lemma set_post_process: "set (post_process ds) \<subseteq> set ds"
proof -
  have "set (post_process ds) \<subseteq> set (js_sort by_confidence (removeOverlappingDetections ds))"
    unfolding post_process_take by (rule set_take_subset)
  then show ?thesis using set_removeOverlapping [of ds] by (simp add: set_js_sort)
qed

section \<open>The contour loop and the frame\<close>

lemma analyze_loop_measured:
  "analyze_loop (map Inr cs) s = (None, s\<lparr>detectedObjects := detectedObjects s @ candidates cs\<rparr>)"
  by (induction cs arbitrary: s) (auto simp: candidates_def minContourArea_def)

lemma analyze_loop_None:
  "analyze_loop cs s = (None, s') \<Longrightarrow> \<exists>cs'. cs = map Inr cs'"
proof (induction cs s rule: analyze_loop.induct)
  case (1 s)
  then show ?case by simp
next
  case (2 e cs s)
  then show ?case by simp
next
  case (3 c cs s)
  then obtain cs' where "cs = map Inr cs'" by (auto split: if_splits)
  then show ?case by (intro exI [of _ "c # cs'"]) simp
qed

lemma analyzeContours_None:
  assumes "analyzeContours cs s = (None, s')"
  shows "\<exists>cs'. cs = map Inr cs'
           \<and> s' = s\<lparr>detectedObjects := post_process (detectedObjects s @ candidates cs')\<rparr>"
proof -
  from assms obtain s1 where l: "analyze_loop cs s = (None, s1)" and s': "s' = postProcessDetections s1"
    by (auto simp: analyzeContours_def split: prod.splits option.splits)
  from analyze_loop_None [OF l] obtain cs' where cs: "cs = map Inr cs'" by blast
  with l have "s1 = s\<lparr>detectedObjects := detectedObjects s @ candidates cs'\<rparr>"
    by (simp add: analyze_loop_measured)
  with s' cs show ?thesis by (auto simp: postProcessDetections_def)
qed

lemma frame_body_returns:
  assumes "frame_body env s = (Inr out, s')"
  shows "\<exists>buffer cs. find_contours env buffer = Inr (map Inr cs)
           \<and> out = post_process (candidates cs) \<and> detectedObjects s' = out"
  using assms
  apply (auto simp: frame_body_def Let_def split: option.splits sum.splits prod.splits
        dest!: analyzeContours_None)
  apply blast
  done

lemma processFrame_cases:
  "fst (processFrame env s) = Inr []
   \<or> (\<exists>buffer cs. find_contours env buffer = Inr (map Inr cs)
         \<and> fst (processFrame env s) = Inr (post_process (candidates cs)))"
proof (cases "isInitialized s")
  case False
  then show ?thesis by (simp add: processFrame_def)
next
  case True
  obtain r s' where b: "frame_body env s = (r, s')" by (cases "frame_body env s")
  show ?thesis
  proof (cases r)
    case (Inl e)
    with True b show ?thesis by (simp add: processFrame_def)
  next
    case (Inr out)
    with b frame_body_returns [of env s out s'] True show ?thesis
      by (auto simp: processFrame_def)
  qed
qed

lemma in_candidates: "d \<in> set (candidates cs) \<Longrightarrow> \<exists>c\<in>set cs. d = detection_of c \<and> c_area c \<ge> 1500"
  by (auto simp: candidates_def)

lemma d_area_detection_of: "d_area (detection_of c) = c_area c"
  by (simp add: detection_of_def Let_def)

lemma confidence_detection_of_eq:
  "confidence (detection_of c) =
     calculateConfidence (d_type (detection_of c)) (d_aspectRatio (detection_of c))
       (d_circularity (detection_of c)) (d_extent (detection_of c))"
  by (simp add: detection_of_def Let_def)

lemma confidence_detection_of:
  "0.1 \<le> confidence (detection_of c) \<and> confidence (detection_of c) \<le> 0.9"
  unfolding confidence_detection_of_eq by (rule calculateConfidence_bounds)

lemma post_process_single: "post_process [d] = [d]"
  by (simp add: post_process_def removeOverlappingDetections_def)

text \<open>
  C2. The contour loop appends a detection for a contour exactly when its area is at
  least 1500: an area of 1499 appends nothing, an area of exactly 1500 appends the
  detection. Every detection left after post-processing has an area of at least 1500, and
  a single contour of area at least 1500 is the detection set of its frame.
\<close>

theorem area_filter:
  "analyze_loop (map Inr cs) s
     = (None, s\<lparr>detectedObjects := detectedObjects s
                   @ map detection_of (filter (\<lambda>c. c_area c \<ge> 1500) cs)\<rparr>)
   \<and> (\<forall>c\<in>set cs. detection_of c
          \<in> set (detectedObjects (snd (analyze_loop (map Inr cs) (s\<lparr>detectedObjects := []\<rparr>))))
        \<longleftrightarrow> c_area c \<ge> 1500)
   \<and> (c_area c = 1499 \<longrightarrow> analyze_loop [Inr c] s = (None, s))
   \<and> (c_area c = 1500 \<longrightarrow>
        analyze_loop [Inr c] s = (None, s\<lparr>detectedObjects := detectedObjects s @ [detection_of c]\<rparr>))
   \<and> (\<forall>d\<in>set (detectedObjects (snd (analyzeContours (map Inr cs) (s\<lparr>detectedObjects := []\<rparr>)))).
        d_area d \<ge> 1500)
   \<and> (c_area c \<ge> 1500 \<longrightarrow>
        detectedObjects (snd (analyzeContours [Inr c] (s\<lparr>detectedObjects := []\<rparr>))) = [detection_of c])"
proof -
  have 1: "analyze_loop (map Inr cs) s
     = (None, s\<lparr>detectedObjects := detectedObjects s
                   @ map detection_of (filter (\<lambda>c. c_area c \<ge> 1500) cs)\<rparr>)" for cs s
    by (simp add: analyze_loop_measured candidates_def)
  have 2: "\<forall>c\<in>set cs. detection_of c
          \<in> set (detectedObjects (snd (analyze_loop (map Inr cs) (s\<lparr>detectedObjects := []\<rparr>))))
        \<longleftrightarrow> c_area c \<ge> 1500"
  proof
    fix c assume c: "c \<in> set cs"
    show "detection_of c
          \<in> set (detectedObjects (snd (analyze_loop (map Inr cs) (s\<lparr>detectedObjects := []\<rparr>))))
        \<longleftrightarrow> c_area c \<ge> 1500"
    proof
      assume "detection_of c
          \<in> set (detectedObjects (snd (analyze_loop (map Inr cs) (s\<lparr>detectedObjects := []\<rparr>))))"
      then obtain c' where "detection_of c = detection_of c'" "c_area c' \<ge> 1500"
        by (auto simp: 1)
      then show "c_area c \<ge> 1500" using d_area_detection_of by metis
    next
      assume "c_area c \<ge> 1500"
      with c show "detection_of c
          \<in> set (detectedObjects (snd (analyze_loop (map Inr cs) (s\<lparr>detectedObjects := []\<rparr>))))"
        by (simp add: 1)
    qed
  qed
  have 3: "c_area c = 1499 \<longrightarrow> analyze_loop [Inr c] s = (None, s)"
    by (simp add: minContourArea_def)
  have 4: "c_area c = 1500 \<longrightarrow>
        analyze_loop [Inr c] s = (None, s\<lparr>detectedObjects := detectedObjects s @ [detection_of c]\<rparr>)"
    by (simp add: minContourArea_def)
  have an: "detectedObjects (snd (analyzeContours (map Inr cs) (s\<lparr>detectedObjects := []\<rparr>)))
      = post_process (candidates cs)" for cs
    by (simp add: analyzeContours_def analyze_loop_measured postProcessDetections_def)
  have 5: "\<forall>d\<in>set (detectedObjects (snd (analyzeContours (map Inr cs) (s\<lparr>detectedObjects := []\<rparr>)))).
        d_area d \<ge> 1500"
    unfolding an using set_post_process [of "candidates cs"]
    by (auto dest!: in_candidates simp: d_area_detection_of)
  have 6: "c_area c \<ge> 1500 \<longrightarrow>
        detectedObjects (snd (analyzeContours [Inr c] (s\<lparr>detectedObjects := []\<rparr>))) = [detection_of c]"
    using an [of "[c]"] by (simp add: candidates_def post_process_single)
  from 1 2 3 4 5 6 show ?thesis by blast
qed

theorem area_filter_witness:
  "c_area (standing\<lparr>c_area := 1499\<rparr>) = 1499
   \<and> analyze_loop [Inr (standing\<lparr>c_area := 1499\<rparr>)] new_ObjectDetector = (None, new_ObjectDetector)
   \<and> c_area (standing\<lparr>c_area := 1500\<rparr>) = 1500
   \<and> analyze_loop [Inr (standing\<lparr>c_area := 1500\<rparr>)] new_ObjectDetector
       = (None, new_ObjectDetector\<lparr>detectedObjects :=
            detectedObjects new_ObjectDetector @ [detection_of (standing\<lparr>c_area := 1500\<rparr>)]\<rparr>)
   \<and> detectedObjects (snd (analyzeContours [Inr (standing\<lparr>c_area := 1500\<rparr>)]
         (new_ObjectDetector\<lparr>detectedObjects := []\<rparr>)))
       = [detection_of (standing\<lparr>c_area := 1500\<rparr>)]
   \<and> standing\<lparr>c_area := 1499\<rparr> \<in> set [standing\<lparr>c_area := 1499\<rparr>, standing\<lparr>c_area := 1500\<rparr>]
   \<and> detection_of (standing\<lparr>c_area := 1499\<rparr>)
       \<notin> set (detectedObjects (snd (analyze_loop
             (map Inr [standing\<lparr>c_area := 1499\<rparr>, standing\<lparr>c_area := 1500\<rparr>])
             (new_ObjectDetector\<lparr>detectedObjects := []\<rparr>))))"
proof -
  let ?lo = "standing\<lparr>c_area := 1499\<rparr>" and ?hi = "standing\<lparr>c_area := 1500\<rparr>"
  have lo: "c_area ?lo = 1499" and nlo: "\<not> c_area ?lo \<ge> 1500" by simp_all
  have hi: "c_area ?hi = 1500" and hi': "c_area ?hi \<ge> 1500" by simp_all
  have mem: "?lo \<in> set [?lo, ?hi]" by simp
  note t1 = area_filter [of "[?lo, ?hi]" new_ObjectDetector ?lo]
  note t2 = area_filter [of "[?lo, ?hi]" new_ObjectDetector ?hi]
  from t1 lo have a: "analyze_loop [Inr ?lo] new_ObjectDetector = (None, new_ObjectDetector)"
    by blast
  from t2 hi have b: "analyze_loop [Inr ?hi] new_ObjectDetector
       = (None, new_ObjectDetector\<lparr>detectedObjects :=
            detectedObjects new_ObjectDetector @ [detection_of ?hi]\<rparr>)"
    by blast
  from t2 hi' have c: "detectedObjects (snd (analyzeContours [Inr ?hi]
         (new_ObjectDetector\<lparr>detectedObjects := []\<rparr>))) = [detection_of ?hi]"
    by blast
  from t1 mem nlo have d: "detection_of ?lo
       \<notin> set (detectedObjects (snd (analyze_loop (map Inr [?lo, ?hi])
             (new_ObjectDetector\<lparr>detectedObjects := []\<rparr>))))"
    by blast
  from lo a hi b c mem d show ?thesis by blast
qed

section \<open>The concrete frames\<close>

lemma length_bytes_of: "length (bytes_of f n) = n"
  by (simp add: bytes_of_def)

lemma working_eval:
  "working = \<lparr>isInitialized = True, detectedObjects = [],
      src = Some (Live (bytes_of (\<lambda>i. 0) (480 * 640 * 4))),
      dst = Some (Live (bytes_of (\<lambda>i. 0) (480 * 640))), gray = Some (Live []),
      contours = Some (Live []), hierarchy = Some (Live [])\<rparr>"
  by (simp add: working_def initialize_def cv_ok_def new_ObjectDetector_def)

lemma analyze_standing:
  "detectedObjects s = [] \<Longrightarrow>
   analyzeContours [Inr standing] s = (None, s\<lparr>detectedObjects := [detection_of standing]\<rparr>)"
  by (simp add: analyzeContours_def minContourArea_def standing_def [THEN arg_cong [of _ _ c_area]]
        postProcessDetections_def post_process_single)

lemma processFrame_full: "fst (processFrame full_frame working) = Inr [detection_of standing]"
  by (simp add: processFrame_def frame_body_def working_eval full_frame_def getImageData_def
        src_data_def typed_set_def length_bytes_of analyze_standing)

lemma processFrame_small: "fst (processFrame small_frame working) = Inr [detection_of standing]"
  by (simp add: processFrame_def frame_body_def working_eval small_frame_def getImageData_def
        src_data_def typed_set_def length_bytes_of analyze_standing)

lemma frame_body_broken:
  "frame_body broken_frame working
     = (Inl (External 0),
        working\<lparr>src := Some (Live (bytes_of (\<lambda>i. 0) (480 * 640 * 4))),
                detectedObjects := [detection_of standing]\<rparr>)"
  by (simp add: frame_body_def working_eval broken_frame_def getImageData_def
        src_data_def typed_set_def length_bytes_of analyzeContours_def minContourArea_def
        standing_def [THEN arg_cong [of _ _ c_area]])

section \<open>What a frame returns\<close>

lemma processFrame_total: "\<exists>out. fst (processFrame env s) = Inr out"
  by (auto simp: processFrame_def split: prod.splits sum.splits)

lemma processFrame_catches:
  "fst (frame_body env s) = Inl e \<Longrightarrow> fst (processFrame env s) = Inr []"
  by (auto simp: processFrame_def split: prod.splits sum.splits)

lemma processFrame_output:
  assumes "fst (processFrame env s) = Inr out"
  shows "set out \<subseteq> detection_of ` {c. c_area c \<ge> 1500} \<and> length out \<le> 10 \<and> descending out"
proof -
  from processFrame_cases [of env s] assms
  consider "out = []" | cs where "out = post_process (candidates cs)" by auto
  then show ?thesis
  proof cases
    case 1
    then show ?thesis by (simp add: descending_def)
  next
    case 2
    have "set out \<subseteq> set (candidates cs)" unfolding 2 by (rule set_post_process)
    then have "set out \<subseteq> detection_of ` {c. c_area c \<ge> 1500}"
      by (auto dest!: in_candidates)
    with 2 show ?thesis by (simp add: length_post_process descending_post_process)
  qed
qed

text \<open>
  C3. The confidence computed for any label and any descriptor values lies in
  [0.1, 0.9]; so does the confidence of the detection built for any contour, and of every
  detection that \<^verbatim>\<open>processFrame\<close> returns.
\<close>

theorem confidence_clamped:
  "0.1 \<le> calculateConfidence l aspectRatio circularity extent
   \<and> calculateConfidence l aspectRatio circularity extent \<le> 0.9
   \<and> 0.1 \<le> confidence (detection_of c) \<and> confidence (detection_of c) \<le> 0.9
   \<and> (\<forall>out. fst (processFrame env s) = Inr out
         \<longrightarrow> (\<forall>d\<in>set out. 0.1 \<le> confidence d \<and> confidence d \<le> 0.9))"
proof -
  have "0.1 \<le> confidence d \<and> confidence d \<le> 0.9"
    if "fst (processFrame env s) = Inr out" "d \<in> set out" for out d
  proof -
    from processFrame_output [OF that(1)] that(2) obtain c' where "d = detection_of c'" by auto
    then show ?thesis by (simp only: confidence_detection_of)
  qed
  then show ?thesis
    using calculateConfidence_bounds [of l aspectRatio circularity extent]
      confidence_detection_of [of c] by blast
qed

theorem confidence_clamped_witness:
  "fst (processFrame full_frame working) = Inr [detection_of standing]
   \<and> detection_of standing \<in> set [detection_of standing]
   \<and> 0.1 \<le> confidence (detection_of standing) \<and> confidence (detection_of standing) \<le> 0.9"
proof -
  have h: "fst (processFrame full_frame working) = Inr [detection_of standing]"
    by (rule processFrame_full)
  have m: "detection_of standing \<in> set [detection_of standing]" by simp
  from confidence_clamped [of HUMAN 0 0 0 standing full_frame working] h m
  show ?thesis by blast
qed

text \<open>
  C5. Post-processing is overlap suppression first, then the sort by confidence of the
  survivors (a permutation of them, in descending order), then the cut to the first 10.
  The list that \<^verbatim>\<open>processFrame\<close> returns has at most 10 detections and is in
  descending order of confidence.
\<close>

theorem output_ranked_and_truncated:
  "post_process ds = take 10 (js_sort by_confidence (removeOverlappingDetections ds))
   \<and> mset (js_sort by_confidence (removeOverlappingDetections ds))
       = mset (removeOverlappingDetections ds)
   \<and> descending (js_sort by_confidence (removeOverlappingDetections ds))
   \<and> length (post_process ds) \<le> 10 \<and> descending (post_process ds)
   \<and> postProcessDetections s = s\<lparr>detectedObjects := post_process (detectedObjects s)\<rparr>
   \<and> (\<forall>out. fst (processFrame env s) = Inr out \<longrightarrow> length out \<le> 10 \<and> descending out)"
  using processFrame_output [of env s]
  by (simp add: post_process_take [symmetric] mset_js_sort descending_js_sort length_post_process
        descending_post_process postProcessDetections_def)

theorem output_ranked_and_truncated_witness:
  "fst (processFrame full_frame working) = Inr [detection_of standing]
   \<and> length [detection_of standing] \<le> 10 \<and> descending [detection_of standing]
   \<and> post_process [boxed (box 0 0 3 1) 0.2, boxed (box 10 0 3 1) 0.9]
       = [boxed (box 10 0 3 1) 0.9, boxed (box 0 0 3 1) 0.2]"
proof -
  have h: "fst (processFrame full_frame working) = Inr [detection_of standing]"
    by (rule processFrame_full)
  note t = output_ranked_and_truncated
    [of "[boxed (box 0 0 3 1) 0.2, boxed (box 10 0 3 1) 0.9]" working full_frame]
  from t h have a: "length [detection_of standing] \<le> 10 \<and> descending [detection_of standing]"
    by blast
  have iou: "spec_iou (box 10 0 3 1) (box 0 0 3 1) = 0"
    by (simp add: spec_iou_def spec_intersection_def box_def)
  from t have "post_process [boxed (box 0 0 3 1) 0.2, boxed (box 10 0 3 1) 0.9]
      = take 10 (js_sort by_confidence
          (removeOverlappingDetections [boxed (box 0 0 3 1) 0.2, boxed (box 10 0 3 1) 0.9]))"
    by (rule conjunct1)
  also have "\<dots> = [boxed (box 10 0 3 1) 0.9, boxed (box 0 0 3 1) 0.2]"
    by (simp add: removeOverlapping_pair iou by_confidence_def boxed_def)
  finally show ?thesis using h a by blast
qed

text \<open>
  C7. \<^verbatim>\<open>processFrame\<close> always returns a list and never an exception. When a stage of
  the body throws, the list is empty. The list returned is either empty or the complete
  post-processed list of the detections of all contours of the frame.
\<close>

theorem processFrame_never_raises:
  "(\<exists>out. fst (processFrame env s) = Inr out)
   \<and> (\<forall>e. fst (frame_body env s) = Inl e \<longrightarrow> fst (processFrame env s) = Inr [])
   \<and> (fst (processFrame env s) = Inr []
       \<or> (\<exists>buffer cs. find_contours env buffer = Inr (map Inr cs)
             \<and> fst (processFrame env s) = Inr (post_process (candidates cs))))"
  using processFrame_total [of env s] processFrame_cases [of env s]
    processFrame_catches [of env s] by blast

theorem processFrame_never_raises_witness:
  "isInitialized working \<and> fst (frame_body broken_frame working) = Inl (External 0)
   \<and> fst (processFrame broken_frame working) = Inr []"
proof -
  have h: "isInitialized working \<and> fst (frame_body broken_frame working) = Inl (External 0)"
    by (simp add: frame_body_broken) (simp add: working_eval)
  with processFrame_never_raises [of broken_frame working] show ?thesis by blast
qed

text \<open>
  The array in the field \<^verbatim>\<open>detectedObjects\<close> is not the list returned: after a
  contour primitive has thrown it keeps the detections pushed before, not post-processed.
\<close>

lemma stored_set_after_failure:
  "detectedObjects (snd (processFrame broken_frame working)) = [detection_of standing]"
  by (simp add: processFrame_def frame_body_broken) (simp add: working_eval)

section \<open>The life cycle\<close>

lemma cleanup_resets: "fst (cleanup s) = None \<Longrightarrow> \<not> isInitialized (snd (cleanup s))"
  by (auto simp: cleanup_def Let_def split: sum.splits)

lemma initialize_fails:
  "\<not> fst (initialize cv w h s) \<Longrightarrow> isInitialized (snd (initialize cv w h s)) = isInitialized s"
  by (auto simp: initialize_def Let_def split: option.splits)

lemma processFrame_guard: "\<not> isInitialized s \<Longrightarrow> processFrame env s = (Inr [], s)"
  by (simp add: processFrame_def)

lemma cleanup_working:
  "cleanup working = (None,
     \<lparr>isInitialized = False, detectedObjects = [], src = Some Deleted, dst = Some Deleted,
      gray = Some Deleted, contours = Some Deleted, hierarchy = Some Deleted\<rparr>)"
  by (simp add: cleanup_def release_def working_eval)

lemma initialize_failing:
  "initialize cv_failing 640 480 new_ObjectDetector
     = (False, new_ObjectDetector\<lparr>src := Some (Live (bytes_of (\<lambda>i. 0) (480 * 640 * 4)))\<rparr>)"
  by (simp add: initialize_def cv_failing_def cv_ok_def)

text \<open>
  C10. On a detector whose flag is not set, \<^verbatim>\<open>processFrame\<close> returns the empty list and
  leaves every field as it was, whatever the frame and the buffers are. The flag is not
  set after construction, stays unset when \<^verbatim>\<open>initialize\<close> fails, and is unset after a
  \<^verbatim>\<open>cleanup\<close> that returns.
\<close>

theorem processFrame_uninitialized:
  "(\<not> isInitialized s \<longrightarrow> processFrame env s = (Inr [], s))
   \<and> \<not> isInitialized new_ObjectDetector
   \<and> (\<not> isInitialized s \<and> \<not> fst (initialize cv w h s)
        \<longrightarrow> \<not> isInitialized (snd (initialize cv w h s)))
   \<and> (fst (cleanup s) = None
        \<longrightarrow> \<not> isInitialized (snd (cleanup s))
            \<and> processFrame env (snd (cleanup s)) = (Inr [], snd (cleanup s)))"
  using cleanup_resets [of s] initialize_fails [of cv w h s]
    processFrame_guard [of s env] processFrame_guard [of "snd (cleanup s)" env]
  by (auto simp: new_ObjectDetector_def)

theorem processFrame_uninitialized_witness:
  "\<not> isInitialized new_ObjectDetector
   \<and> processFrame full_frame new_ObjectDetector = (Inr [], new_ObjectDetector)
   \<and> \<not> fst (initialize cv_failing 640 480 new_ObjectDetector)
   \<and> \<not> isInitialized (snd (initialize cv_failing 640 480 new_ObjectDetector))
   \<and> fst (cleanup working) = None
   \<and> processFrame full_frame (snd (cleanup working)) = (Inr [], snd (cleanup working))"
proof -
  note t1 = processFrame_uninitialized [of new_ObjectDetector full_frame cv_failing 640 480]
  note t2 = processFrame_uninitialized [of working full_frame cv_failing 640 480]
  have a: "\<not> isInitialized new_ObjectDetector" using t1 by blast
  have b: "\<not> fst (initialize cv_failing 640 480 new_ObjectDetector)"
    by (simp add: initialize_failing)
  have c: "fst (cleanup working) = None" by (simp add: cleanup_working)
  from t1 a b t2 c show ?thesis by blast
qed

text \<open>
  C9. \<^verbatim>\<open>cleanup\<close> on a detector that was never initialized returns and changes nothing.
  After \<^verbatim>\<open>initialize\<close> the first \<^verbatim>\<open>cleanup\<close> returns, and the fields keep the deleted
  handles; the second \<^verbatim>\<open>cleanup\<close> calls \<^verbatim>\<open>delete\<close> on the deleted \<^verbatim>\<open>src\<close> and
  throws.
\<close>

theorem cleanup_twice_raises:
  "cleanup new_ObjectDetector = (None, new_ObjectDetector)
   \<and> fst (cleanup working) = None
   \<and> src (snd (cleanup working)) = Some Deleted
   \<and> cleanup (snd (cleanup working)) = (Some BindingError, snd (cleanup working))"
  by (simp add: cleanup_working) (simp add: cleanup_def release_def new_ObjectDetector_def)

text \<open>The same for any detector with a buffer in \<^verbatim>\<open>src\<close>.\<close>

lemma cleanup_not_idempotent:
  assumes "fst (cleanup s) = None" and "src s \<noteq> None"
  shows "fst (cleanup (snd (cleanup s))) = Some BindingError"
proof -
  from assms(1) obtain m1 where r: "release (src s) = Inr m1"
    by (cases "release (src s)") (simp_all add: cleanup_def)
  with assms(2) have m1: "m1 = Some Deleted"
    by (auto simp: release_def split: option.splits mat.splits)
  from assms(1) r have "src (snd (cleanup s)) = m1"
    by (simp add: cleanup_def Let_def split: sum.splits)
  with m1 show ?thesis by (simp add: cleanup_def release_def)
qed

section \<open>Frame sizes\<close>

text \<open>
  C8, as the specification states it, fails: on a detector initialized for 640 by 480, a
  frame of 320 by 240 raises no error and is analysed; the detection found is returned.
\<close>

theorem mismatched_frame_processed:
  "src working = Some (Live (bytes_of (\<lambda>i. 0) (480 * 640 * 4)))
   \<and> canvas_width (canvas small_frame) = 320 \<and> canvas_height (canvas small_frame) = 240
   \<and> fst (processFrame small_frame working) = Inr [detection_of standing]
   \<and> d_type (detection_of standing) = HUMAN"
  by (simp add: processFrame_small)
     (simp add: working_eval small_frame_def detection_of_def standing_def box_def Let_def
        classifyObject_def isLikelyHuman_def humanAspectRatioMin_def humanAspectRatioMax_def)

lemma frame_body_zero:
  assumes "drawImage1 env = None"
    and "canvas_width (canvas env) = 0 \<or> canvas_height (canvas env) = 0"
  shows "fst (frame_body env s) = Inl IndexSizeError"
  using assms by (auto simp: frame_body_def getImageData_def)

lemma frame_body_too_large:
  assumes "drawImage1 env = None"
    and "0 < canvas_width (canvas env)" and "0 < canvas_height (canvas env)"
    and "src s = Some (Live buffer)"
    and "length buffer < 4 * canvas_width (canvas env) * canvas_height (canvas env)"
  shows "fst (frame_body env s) = Inl RangeError"
  using assms by (simp add: frame_body_def getImageData_def src_data_def typed_set_def length_bytes_of)

lemma frame_body_fits:
  assumes "drawImage1 env = None"
    and "0 < canvas_width (canvas env)" and "0 < canvas_height (canvas env)"
    and "src s = Some (Live buffer)"
    and "4 * canvas_width (canvas env) * canvas_height (canvas env) \<le> length buffer"
    and "find_contours env
           (bytes_of (pixel (canvas env))
              (4 * canvas_width (canvas env) * canvas_height (canvas env))
            @ drop (4 * canvas_width (canvas env) * canvas_height (canvas env)) buffer)
         = Inr (map Inr cs)"
    and "drawImage2 env = None"
    and "drawDetections env (post_process (candidates cs)) = None"
  shows "fst (frame_body env s) = Inr (post_process (candidates cs))"
  using assms
  by (simp add: frame_body_def getImageData_def src_data_def typed_set_def length_bytes_of analyzeContours_def
        analyze_loop_measured postProcessDetections_def)

text \<open>
  C8, amended. \<^verbatim>\<open>processFrame\<close> does not compare the size of the frame with the working
  size, and no InvalidFrame error exists. On an initialized detector whose first
  \<^verbatim>\<open>drawImage\<close> returns: a frame of width or height zero makes \<^verbatim>\<open>getImageData\<close>
  throw, and a frame with more bytes than the working buffer makes the copy into the
  buffer throw; both are caught and the result is empty. A frame of positive size with at
  most as many bytes as the working buffer is copied over the front of the buffer, and
  when the later stages return, the detections of the contours found are returned.
\<close>

theorem frame_size_unchecked:
  "(isInitialized s \<and> drawImage1 env = None
      \<and> (canvas_width (canvas env) = 0 \<or> canvas_height (canvas env) = 0)
     \<longrightarrow> fst (frame_body env s) = Inl IndexSizeError \<and> fst (processFrame env s) = Inr [])
   \<and> (isInitialized s \<and> drawImage1 env = None
      \<and> 0 < canvas_width (canvas env) \<and> 0 < canvas_height (canvas env)
      \<and> src s = Some (Live buffer)
      \<and> length buffer < 4 * canvas_width (canvas env) * canvas_height (canvas env)
     \<longrightarrow> fst (frame_body env s) = Inl RangeError \<and> fst (processFrame env s) = Inr [])
   \<and> (isInitialized s \<and> drawImage1 env = None
      \<and> 0 < canvas_width (canvas env) \<and> 0 < canvas_height (canvas env)
      \<and> src s = Some (Live buffer)
      \<and> 4 * canvas_width (canvas env) * canvas_height (canvas env) \<le> length buffer
      \<and> find_contours env
           (bytes_of (pixel (canvas env))
              (4 * canvas_width (canvas env) * canvas_height (canvas env))
            @ drop (4 * canvas_width (canvas env) * canvas_height (canvas env)) buffer)
         = Inr (map Inr cs)
      \<and> drawImage2 env = None
      \<and> drawDetections env (post_process (candidates cs)) = None
     \<longrightarrow> fst (processFrame env s) = Inr (post_process (candidates cs)))"
proof -
  have ret: "fst (processFrame env s) = fst (frame_body env s)"
    if "fst (frame_body env s) = Inr out" "isInitialized s" for out
    using that by (auto simp: processFrame_def split: prod.splits sum.splits)
  show ?thesis
    using frame_body_zero [of env s] frame_body_too_large [of env s buffer]
      frame_body_fits [of env s buffer cs] processFrame_catches [of env s] ret
    by (intro conjI impI) auto
qed

theorem frame_size_unchecked_witness:
  "isInitialized working \<and> src working = Some (Live (bytes_of (\<lambda>i. 0) (480 * 640 * 4)))
   \<and> drawImage1 empty_frame = None \<and> canvas_width (canvas empty_frame) = 0
   \<and> fst (frame_body empty_frame working) = Inl IndexSizeError
   \<and> fst (processFrame empty_frame working) = Inr []
   \<and> drawImage1 large_frame = None
   \<and> canvas_width (canvas large_frame) = 1280 \<and> canvas_height (canvas large_frame) = 960
   \<and> fst (frame_body large_frame working) = Inl RangeError
   \<and> fst (processFrame large_frame working) = Inr []
   \<and> drawImage1 small_frame = None
   \<and> canvas_width (canvas small_frame) = 320 \<and> canvas_height (canvas small_frame) = 240
   \<and> fst (processFrame small_frame working) = Inr (post_process (candidates [standing]))"
proof -
  let ?buffer = "bytes_of (\<lambda>i. 0) (480 * 640 * 4)"
  have w: "isInitialized working" "src working = Some (Live ?buffer)"
    by (simp_all add: working_eval)
  have e: "drawImage1 empty_frame = None" "canvas_width (canvas empty_frame) = 0"
    by (simp_all add: empty_frame_def full_frame_def)
  have l: "drawImage1 large_frame = None" "canvas_width (canvas large_frame) = 1280"
    "canvas_height (canvas large_frame) = 960"
    by (simp_all add: large_frame_def full_frame_def)
  have l': "0 < canvas_width (canvas large_frame)" "0 < canvas_height (canvas large_frame)"
    "length ?buffer < 4 * canvas_width (canvas large_frame) * canvas_height (canvas large_frame)"
    by (simp_all add: l length_bytes_of)
  have m: "drawImage1 small_frame = None" "canvas_width (canvas small_frame) = 320"
    "canvas_height (canvas small_frame) = 240" "drawImage2 small_frame = None"
    "drawDetections small_frame (post_process (candidates [standing])) = None"
    by (simp_all add: small_frame_def)
  have m': "0 < canvas_width (canvas small_frame)" "0 < canvas_height (canvas small_frame)"
    "4 * canvas_width (canvas small_frame) * canvas_height (canvas small_frame) \<le> length ?buffer"
    by (simp_all add: m length_bytes_of)
  have f: "find_contours small_frame
           (bytes_of (pixel (canvas small_frame))
              (4 * canvas_width (canvas small_frame) * canvas_height (canvas small_frame))
            @ drop (4 * canvas_width (canvas small_frame) * canvas_height (canvas small_frame)) ?buffer)
         = Inr (map Inr [standing])"
    by (simp add: small_frame_def)
  from frame_size_unchecked [of working empty_frame ?buffer "[]"] w e
  have a: "fst (frame_body empty_frame working) = Inl IndexSizeError
           \<and> fst (processFrame empty_frame working) = Inr []" by blast
  from frame_size_unchecked [of working large_frame ?buffer "[]"] w l(1) l'
  have b: "fst (frame_body large_frame working) = Inl RangeError
           \<and> fst (processFrame large_frame working) = Inr []" by blast
  from frame_size_unchecked [of working small_frame ?buffer "[standing]"] w m(1,4,5) m' f
  have c: "fst (processFrame small_frame working) = Inr (post_process (candidates [standing]))"
    by blast
  from w e a l b m(1,2,3) c show ?thesis by blast
qed

end
